theory Spec2Isabelle
  imports Complex_Main "HOL-Library.Char_ord"
begin

section \<open>JavaScript numbers\<close>

text \<open>
  The controller computes with JavaScript numbers.  A number is modelled as a real, or one
  of the three special values that the arithmetic of the controller can produce:
  \<open>NaN\<close> (from \<open>undefined * 100\<close> and from \<open>0 / 0\<close>) and the two infinities (from
  \<open>n / 0\<close>).  Rounding error of the binary representation and the sign of zero are not
  modelled; every zero divisor in this program is a count, hence \<open>+0\<close>.  Nor is
  overflow: a finite product, sum or quotient stays finite here, while the program turns a
  result beyond the largest binary64 value (about \<open>1.8e308\<close>) into an infinity.  The
  statements below that promise a finite result therefore bound the scores they start from.
\<close>

datatype jsnum = NaN | PInf | NInf | Fin real

fun jneg :: "jsnum \<Rightarrow> jsnum" where
  "jneg NaN = NaN"
| "jneg PInf = NInf"
| "jneg NInf = PInf"
| "jneg (Fin a) = Fin (- a)"

fun jadd :: "jsnum \<Rightarrow> jsnum \<Rightarrow> jsnum" where
  "jadd (Fin a) (Fin b) = Fin (a + b)"
| "jadd NaN _ = NaN"
| "jadd _ NaN = NaN"
| "jadd PInf NInf = NaN"
| "jadd NInf PInf = NaN"
| "jadd PInf _ = PInf"
| "jadd _ PInf = PInf"
| "jadd NInf _ = NInf"
| "jadd _ NInf = NInf"

definition jsub :: "jsnum \<Rightarrow> jsnum \<Rightarrow> jsnum" where
  "jsub a b = jadd a (jneg b)"

text \<open>The sign of a number that is not \<open>NaN\<close>: \<open>-1\<close>, \<open>0\<close> or \<open>1\<close>.\<close>

fun jsign :: "jsnum \<Rightarrow> int" where
  "jsign NaN = 0"
| "jsign PInf = 1"
| "jsign NInf = - 1"
| "jsign (Fin a) = (if a < 0 then - 1 else if a = 0 then 0 else 1)"

definition signed_inf :: "int \<Rightarrow> jsnum" where
  "signed_inf k = (if k = 0 then NaN else if k < 0 then NInf else PInf)"

fun jmul :: "jsnum \<Rightarrow> jsnum \<Rightarrow> jsnum" where
  "jmul (Fin a) (Fin b) = Fin (a * b)"
| "jmul NaN _ = NaN"
| "jmul _ NaN = NaN"
| "jmul a b = signed_inf (jsign a * jsign b)"

fun jdiv :: "jsnum \<Rightarrow> jsnum \<Rightarrow> jsnum" where
  "jdiv (Fin a) (Fin b) = (if b = 0 then signed_inf (jsign (Fin a)) else Fin (a / b))"
| "jdiv NaN _ = NaN"
| "jdiv _ NaN = NaN"
| "jdiv (Fin a) _ = Fin 0"
| "jdiv a (Fin b) = signed_inf (jsign a * (if b < 0 then - 1 else 1))"
| "jdiv _ _ = NaN"

text \<open>\<open>Math.round\<close> rounds to the nearest integer, halves towards \<open>+\<infinity>\<close>.\<close>

fun Math_round :: "jsnum \<Rightarrow> jsnum" where
  "Math_round (Fin a) = Fin (of_int \<lfloor>a + 1 / 2\<rfloor>)"
| "Math_round x = x"

text \<open>The relational operators are false as soon as one side is \<open>NaN\<close>.\<close>

fun jlt :: "jsnum \<Rightarrow> jsnum \<Rightarrow> bool" where
  "jlt NaN _ = False"
| "jlt _ NaN = False"
| "jlt (Fin a) (Fin b) = (a < b)"
| "jlt NInf b = (b \<noteq> NInf)"
| "jlt a PInf = (a \<noteq> PInf)"
| "jlt _ _ = False"

definition jgt :: "jsnum \<Rightarrow> jsnum \<Rightarrow> bool" where
  "jgt a b = jlt b a"

definition jge :: "jsnum \<Rightarrow> jsnum \<Rightarrow> bool" where
  "jge a b = (a \<noteq> NaN \<and> b \<noteq> NaN \<and> \<not> jlt a b)"

fun Math_min :: "jsnum \<Rightarrow> jsnum \<Rightarrow> jsnum" where
  "Math_min NaN _ = NaN"
| "Math_min _ NaN = NaN"
| "Math_min a b = (if jlt b a then b else a)"

fun Math_max :: "jsnum \<Rightarrow> jsnum \<Rightarrow> jsnum" where
  "Math_max NaN _ = NaN"
| "Math_max _ NaN = NaN"
| "Math_max a b = (if jlt a b then b else a)"

text \<open>\<open>Math.max(...xs)\<close> of an array: \<open>-Infinity\<close> for the empty array.\<close>

definition Math_max_list :: "jsnum list \<Rightarrow> jsnum" where
  "Math_max_list xs = foldl Math_max NInf xs"

definition of_count :: "nat \<Rightarrow> jsnum" where
  "of_count n = Fin (real n)"

section \<open>The fusion helpers\<close>

text \<open>\<open>getReliabilityLevel(score)\<close>.\<close>

definition getReliabilityLevel :: "jsnum \<Rightarrow> string" where
  "getReliabilityLevel score =
     (if jge score (Fin 80) then ''highly reliable''
      else if jge score (Fin 60) then ''reliable''
      else if jge score (Fin 40) then ''moderately reliable''
      else if jge score (Fin 20) then ''somewhat unreliable''
      else ''unreliable'')"

text \<open>\<open>combineScores(score1, score2, weight1 = 0.6, weight2 = 0.4)\<close>.\<close>

definition combineScores_w :: "jsnum \<Rightarrow> jsnum \<Rightarrow> jsnum \<Rightarrow> jsnum \<Rightarrow> jsnum" where
  "combineScores_w score1 score2 weight1 weight2 =
     Math_round (jadd (jmul score1 weight1) (jmul score2 weight2))"

definition combineScores :: "jsnum \<Rightarrow> jsnum \<Rightarrow> jsnum" where
  "combineScores score1 score2 = combineScores_w score1 score2 (Fin (6 / 10)) (Fin (4 / 10))"

section \<open>Strings and regular expressions\<close>

text \<open>
  A string is a list of code units below 256 (the Latin-1 range).  \<open>toUpper\<close> and
  \<open>toLower\<close> fold the ASCII letters, which is all the \<open>i\<close> flag of a regular expression
  does for the ASCII patterns of the controller: \<open>toUpper\<close> clears bit 5 of a lower-case
  letter (code minus 32) and \<open>toLower\<close> sets it on an upper-case letter.
  \<open>String.prototype.toLowerCase\<close> also folds the accented capitals \<open>0xC0\<close> to \<open>0xDE\<close>
  (the multiplication sign \<open>0xD7\<close> excepted), again by setting bit 5.
\<close>

definition is_upper :: "char \<Rightarrow> bool" where
  "is_upper c = (CHR ''A'' \<le> c \<and> c \<le> CHR ''Z'')"

definition is_lower :: "char \<Rightarrow> bool" where
  "is_lower c = (CHR ''a'' \<le> c \<and> c \<le> CHR ''z'')"

definition is_digit :: "char \<Rightarrow> bool" where
  "is_digit c = (CHR ''0'' \<le> c \<and> c \<le> CHR ''9'')"

text \<open>The class \<open>\w\<close> and the class \<open>\s\<close> (tab, line feed, vertical tab, form feed,
  carriage return, space, no-break space).\<close>

definition is_wordc :: "char \<Rightarrow> bool" where
  "is_wordc c = (is_lower c \<or> is_upper c \<or> is_digit c \<or> c = CHR ''_'')"

definition is_space :: "char \<Rightarrow> bool" where
  "is_space c = (c = CHR '' '' \<or> c = CHR 0x0A \<or> c = CHR 0x09 \<or> c = CHR 0x0D
                 \<or> c = CHR 0x0B \<or> c = CHR 0x0C \<or> c = CHR 0xA0)"

definition toUpper :: "char \<Rightarrow> char" where
  "toUpper c = (if is_lower c
                then (case c of Char b0 b1 b2 b3 b4 b5 b6 b7 \<Rightarrow> Char b0 b1 b2 b3 b4 False b6 b7)
                else c)"

definition toLower :: "char \<Rightarrow> char" where
  "toLower c = (if is_upper c
                then (case c of Char b0 b1 b2 b3 b4 b5 b6 b7 \<Rightarrow> Char b0 b1 b2 b3 b4 True b6 b7)
                else c)"

definition is_upper_latin :: "char \<Rightarrow> bool" where
  "is_upper_latin c = (CHR 0xC0 \<le> c \<and> c \<le> CHR 0xDE \<and> c \<noteq> CHR 0xD7)"

definition lower_char :: "char \<Rightarrow> char" where
  "lower_char c = (if is_upper c \<or> is_upper_latin c
                   then (case c of Char b0 b1 b2 b3 b4 b5 b6 b7 \<Rightarrow> Char b0 b1 b2 b3 b4 True b6 b7)
                   else c)"

definition toLowerCase :: "string \<Rightarrow> string" where
  "toLowerCase s = map lower_char s"

text \<open>\<open>String.prototype.trim\<close>.\<close>

definition trim :: "string \<Rightarrow> string" where
  "trim s = rev (dropWhile is_space (rev (dropWhile is_space s)))"

text \<open>
  The regular expressions of the controller, as syntax trees.  \<open>Class neg items\<close> is a
  bracket expression (\<open>neg\<close> for \<open>[^...]\<close>), \<open>Group n r\<close> the \<open>n\<close>-th capturing group,
  \<open>WordB\<close> is \<open>\b\<close>, \<open>Bol\<close> is \<open>^\<close> and \<open>Eol\<close> is \<open>$\<close>.
\<close>

datatype citem = CChar char | CRange char char | CDigit | CWord | CSpace

datatype regex =
    Eps
  | Chr char
  | Class bool "citem list"
  | Seq regex regex
  | Alt regex regex
  | Opt regex
  | Star regex
  | Group nat regex
  | WordB
  | Bol
  | Eol

type_synonym caps = "(nat \<times> string) list"

text \<open>A matcher state: the character before the current position (none at the start of
  the input), the rest of the input, and the groups captured so far, latest first.\<close>

type_synonym mstate = "char option \<times> string \<times> caps"

fun item_has :: "citem \<Rightarrow> char \<Rightarrow> bool" where
  "item_has (CChar a) x = (a = x)"
| "item_has (CRange a b) x = (a \<le> x \<and> x \<le> b)"
| "item_has CDigit x = is_digit x"
| "item_has CWord x = is_wordc x"
| "item_has CSpace x = is_space x"

text \<open>With the \<open>i\<close> flag (\<open>ci\<close>) a character matches when its other case does.\<close>

definition class_has :: "bool \<Rightarrow> citem list \<Rightarrow> char \<Rightarrow> bool" where
  "class_has ci items x =
     (if list_ex (\<lambda>it. item_has it x) items then True
      else if ci then list_ex (\<lambda>it. item_has it (toLower x)) items
                      \<or> list_ex (\<lambda>it. item_has it (toUpper x)) items
      else False)"

definition chr_eq :: "bool \<Rightarrow> char \<Rightarrow> char \<Rightarrow> bool" where
  "chr_eq ci a x = (if a = x then True else if ci then toUpper a = toUpper x else False)"

definition at_boundary :: "char option \<Rightarrow> string \<Rightarrow> bool" where
  "at_boundary p s =
     ((case p of None \<Rightarrow> False | Some a \<Rightarrow> is_wordc a) \<noteq>
      (case s of [] \<Rightarrow> False | x # _ \<Rightarrow> is_wordc x))"

text \<open>
  The backtracking matcher: \<open>rmatch ci r st\<close> lists the states in which a match of \<open>r\<close>
  started in \<open>st\<close> can end, in the order in which backtracking tries them (the first
  alternative first, the longest repetition first).  The head of the list is the match
  that \<open>RegExp.prototype.exec\<close> reports.  An iteration of \<open>*\<close> that consumes nothing is
  rejected, as in ECMAScript.  The groups of an earlier iteration are not cleared when a
  repetition iterates again; the controller reads no group that stands inside a repetition.
\<close>

fun rmatch :: "bool \<Rightarrow> regex \<Rightarrow> mstate \<Rightarrow> mstate list" where
  "rmatch ci Eps st = [st]"
| "rmatch ci (Chr a) (p, s, c) =
     (case s of [] \<Rightarrow> [] | x # xs \<Rightarrow> if chr_eq ci a x then [(Some x, xs, c)] else [])"
| "rmatch ci (Class neg items) (p, s, c) =
     (case s of [] \<Rightarrow> []
      | x # xs \<Rightarrow> if class_has ci items x \<noteq> neg then [(Some x, xs, c)] else [])"
| "rmatch ci (Seq r1 r2) st = concat (map (rmatch ci r2) (rmatch ci r1 st))"
| "rmatch ci (Alt r1 r2) st = rmatch ci r1 st @ rmatch ci r2 st"
| "rmatch ci (Opt r) st = rmatch ci r st @ [st]"
| "rmatch ci (Star r) (p, s, c) =
     concat (map (\<lambda>(p', s', c').
                if length s' < length s then rmatch ci (Star r) (p', s', c') else [])
             (rmatch ci r (p, s, c))) @ [(p, s, c)]"
| "rmatch ci (Group n r) (p, s, c) =
     map (\<lambda>(p', s', c'). (p', s', (n, take (length s - length s') s) # c'))
         (rmatch ci r (p, s, c))"
| "rmatch ci WordB (p, s, c) = (if at_boundary p s then [(p, s, c)] else [])"
| "rmatch ci Bol (p, s, c) = (if p = None then [(p, s, c)] else [])"
| "rmatch ci Eol (p, s, c) = (if s = [] then [(p, s, c)] else [])"

text \<open>Builders for the derived forms: a literal, \<open>a|b|c\<close>, a sequence, \<open>r+\<close>,
  \<open>r{n}\<close>, \<open>r{m,n}\<close> and \<open>r{m,}\<close>.\<close>

fun lit :: "string \<Rightarrow> regex" where
  "lit [] = Eps"
| "lit [a] = Chr a"
| "lit (a # as) = Seq (Chr a) (lit as)"

fun alts :: "regex list \<Rightarrow> regex" where
  "alts [] = Eps"
| "alts [r] = r"
| "alts (r # rs) = Alt r (alts rs)"

fun seqs :: "regex list \<Rightarrow> regex" where
  "seqs [] = Eps"
| "seqs [r] = r"
| "seqs (r # rs) = Seq r (seqs rs)"

definition Plus :: "regex \<Rightarrow> regex" where
  "Plus r = Seq r (Star r)"

fun upto_times :: "nat \<Rightarrow> regex \<Rightarrow> regex" where
  "upto_times 0 r = Eps"
| "upto_times (Suc k) r = Opt (Seq r (upto_times k r))"

definition times :: "nat \<Rightarrow> regex \<Rightarrow> regex" where
  "times n r = seqs (replicate n r)"

definition between :: "nat \<Rightarrow> nat \<Rightarrow> regex \<Rightarrow> regex" where
  "between m n r = Seq (times m r) (upto_times (n - m) r)"

definition at_least :: "nat \<Rightarrow> regex \<Rightarrow> regex" where
  "at_least m r = Seq (times m r) (Star r)"

text \<open>
  The uses of a regular expression with the \<open>g\<close> flag.  Each walks the input once; \<open>k\<close>
  counts the characters of the previous match that are still to be skipped.  After an
  empty match the search resumes one character later.

  \<open>match_from\<close> is \<open>matchAll\<close>, \<open>match\<close> and the \<open>exec\<close> loop: the matches with their
  groups.
\<close>

fun match_from :: "bool \<Rightarrow> regex \<Rightarrow> nat \<Rightarrow> char option \<Rightarrow> string \<Rightarrow> (string \<times> caps) list" where
  "match_from ci r (Suc k) p [] = []"
| "match_from ci r (Suc k) p (x # xs) = match_from ci r k (Some x) xs"
| "match_from ci r 0 p s =
     (case rmatch ci r (p, s, []) of
        [] \<Rightarrow> (case s of [] \<Rightarrow> [] | x # xs \<Rightarrow> match_from ci r 0 (Some x) xs)
      | (p', s', c) # _ \<Rightarrow>
          (take (length s - length s') s, c) #
          (case s of [] \<Rightarrow> []
           | x # xs \<Rightarrow> match_from ci r (length s - length s' - 1) (Some x) xs))"

definition matchAll :: "bool \<Rightarrow> regex \<Rightarrow> string \<Rightarrow> (string \<times> caps) list" where
  "matchAll ci r s = match_from ci r 0 None s"

text \<open>\<open>s.match(r)\<close> with the \<open>g\<close> flag, as the list of matched texts (\<open>null\<close> is the
  empty list: the controller only takes the length or spreads the array).\<close>

definition match_g :: "bool \<Rightarrow> regex \<Rightarrow> string \<Rightarrow> string list" where
  "match_g ci r s = map fst (matchAll ci r s)"

text \<open>\<open>r.test(s)\<close> on a fresh expression (\<open>lastIndex = 0\<close>).\<close>

fun test_from :: "bool \<Rightarrow> regex \<Rightarrow> char option \<Rightarrow> string \<Rightarrow> bool" where
  "test_from ci r p s =
     (if rmatch ci r (p, s, []) \<noteq> [] then True
      else (case s of [] \<Rightarrow> False | x # xs \<Rightarrow> test_from ci r (Some x) xs))"

definition re_test :: "bool \<Rightarrow> regex \<Rightarrow> string \<Rightarrow> bool" where
  "re_test ci r s = test_from ci r None s"

text \<open>\<open>s.replace(r, '')\<close> with the \<open>g\<close> flag.\<close>

fun remove_from :: "bool \<Rightarrow> regex \<Rightarrow> nat \<Rightarrow> char option \<Rightarrow> string \<Rightarrow> string" where
  "remove_from ci r (Suc k) p [] = []"
| "remove_from ci r (Suc k) p (x # xs) = remove_from ci r k (Some x) xs"
| "remove_from ci r 0 p s =
     (case rmatch ci r (p, s, []) of
        [] \<Rightarrow> (case s of [] \<Rightarrow> [] | x # xs \<Rightarrow> x # remove_from ci r 0 (Some x) xs)
      | (p', s', c) # _ \<Rightarrow>
          (case s of [] \<Rightarrow> []
           | x # xs \<Rightarrow>
               if length s' < length s
               then remove_from ci r (length s - length s' - 1) (Some x) xs
               else x # remove_from ci r 0 (Some x) xs))"

definition remove_all :: "bool \<Rightarrow> regex \<Rightarrow> string \<Rightarrow> string" where
  "remove_all ci r s = remove_from ci r 0 None s"

text \<open>
  \<open>s.split(r)\<close>: \<open>acc\<close> is the current piece, reversed.  The expression is tried at
  every position before the end of the input; an empty match at the start of a piece is
  skipped, an empty match inside a piece cuts it.  Groups are not spliced into the
  result: no expression the controller splits on has one.
\<close>

fun split_from :: "bool \<Rightarrow> regex \<Rightarrow> nat \<Rightarrow> string \<Rightarrow> char option \<Rightarrow> string \<Rightarrow> string list" where
  "split_from ci r k acc p [] = [rev acc]"
| "split_from ci r (Suc k) acc p (x # xs) = split_from ci r k acc (Some x) xs"
| "split_from ci r 0 acc p (x # xs) =
     (case rmatch ci r (p, x # xs, []) of
        [] \<Rightarrow> split_from ci r 0 (x # acc) (Some x) xs
      | (p', s', c) # _ \<Rightarrow>
          if length s' < Suc (length xs)
          then rev acc # split_from ci r (length xs - length s') [] (Some x) xs
          else if acc = [] then split_from ci r 0 [x] (Some x) xs
          else rev acc # split_from ci r 0 [x] (Some x) xs)"

definition split :: "bool \<Rightarrow> regex \<Rightarrow> string \<Rightarrow> string list" where
  "split ci r s =
     (if s = [] then (if rmatch ci r (None, [], []) \<noteq> [] then [] else [[]])
      else split_from ci r 0 [] None s)"

text \<open>The two separators of the controller: \<open>/\s+/\<close> and \<open>/[.!?]+/\<close>.\<close>

definition whitespace_re :: regex where
  "whitespace_re = Plus (Class False [CSpace])"

definition sentence_end_re :: regex where
  "sentence_end_re = Plus (Class False [CChar CHR ''.'', CChar CHR ''!'', CChar CHR ''?''])"

section \<open>Signal extractors\<close>

subsection \<open>Source attribution\<close>

datatype source_type =
  MajorNewsAgency | SocialMedia | NewsWebsite | CitedSource | OfficialSource | LocalNews

datatype confidence_tier = High | Medium | Low

record extracted_source =
  src_name :: string
  src_type :: source_type
  src_confidence :: confidence_tier

definition digit :: regex where
  "digit = Class False [CDigit]"

definition not_comma_dot :: regex where
  "not_comma_dot = Class True [CChar CHR '','', CChar CHR ''.'']"

text \<open>The six entries of \<open>sourcePatterns\<close>, all with the flags \<open>gi\<close>.\<close>

definition major_agency_re :: regex where
  "major_agency_re =
     Group 1 (alts (map lit
       [''Reuters'', ''Associated Press'', ''AP'', ''AFP'', ''BBC News'', ''CNN'', ''Fox News'',
        ''MSNBC'', ''Al Jazeera'', ''The New York Times'', ''Washington Post'', ''The Guardian'',
        ''USA Today'', ''Wall Street Journal'', ''Bloomberg'', ''NPR'', ''CBC News'', ''NBC News'',
        ''ABC News'', ''CBS News'']))"

definition social_media_re :: regex where
  "social_media_re =
     seqs [alts [lit ''reported'', lit ''posted'', lit ''shared'', lit ''announced'', lit ''stated'',
                 lit ''published'', lit ''revealed'',
                 Seq (lit ''according to source'') (Opt (Chr CHR ''s''))],
           Chr CHR '' '',
           alts (map lit [''on'', ''via'', ''through'', ''in'']),
           Chr CHR '' '',
           Group 1 (alts (map lit [''Twitter'', ''Facebook'', ''Instagram'', ''LinkedIn'', ''YouTube'',
                                   ''TikTok'', ''X'', ''Thread'']))]"

definition news_website_re :: regex where
  "news_website_re =
     seqs [Opt (Group 1 (Alt (lit ''www.'')
                             (seqs [lit ''http'', Opt (Chr CHR ''s''), lit ''://'']))),
           Star (Group 2 (Seq (Plus (Class False [CRange CHR ''a'' CHR ''z'', CRange CHR ''A'' CHR ''Z'',
                                                  CRange CHR ''0'' CHR ''9'', CChar CHR ''-'']))
                              (Chr CHR ''.''))),
           Group 3 (alts (map lit [''news'', ''com'', ''org'', ''gov'', ''edu''])),
           Opt (Group 4 (Seq (Chr CHR ''/'') (Star (Class True [CSpace]))))]"

definition cited_source_re :: regex where
  "cited_source_re =
     seqs [alts (map lit [''according to'', ''as reported by'', ''sources from'', ''cited by'',
                          ''confirmed by'', ''stated by'', ''revealed by'', ''announced by'']),
           Chr CHR '' '',
           Group 1 (Plus not_comma_dot)]"

definition official_source_re :: regex where
  "official_source_re =
     seqs [alts (map lit [''officials from'', ''spokesperson for'', ''representatives of'',
                          ''statement from'']),
           Chr CHR '' '',
           Group 1 (Plus not_comma_dot)]"

definition local_news_re :: regex where
  "local_news_re =
     seqs [alts (map lit [''local'', ''regional'', ''city'', ''county'', ''state'']),
           Chr CHR '' '',
           alts (map lit [''news'', ''media'', ''press'', ''reports'', ''sources'']),
           Chr CHR '' '',
           Group 1 (Plus not_comma_dot)]"

definition sourcePatterns :: "(regex \<times> source_type) list" where
  "sourcePatterns =
     [(major_agency_re, MajorNewsAgency),
      (social_media_re, SocialMedia),
      (news_website_re, NewsWebsite),
      (cited_source_re, CitedSource),
      (official_source_re, OfficialSource),
      (local_news_re, LocalNews)]"

text \<open>The two clean-up expressions: \<open>/^[\s,."']+|[\s,."']+$/g\<close> and
  \<open>/(reported by|according to|sources from|reported on|posted on|via|through|in)/gi\<close>.\<close>

definition edge_punct :: regex where
  "edge_punct = Class False [CSpace, CChar CHR '','', CChar CHR ''.'', CChar CHR 0x22, CChar CHR 0x27]"

definition edge_punct_re :: regex where
  "edge_punct_re = Alt (Seq Bol (Plus edge_punct)) (Seq (Plus edge_punct) Eol)"

definition attribution_re :: regex where
  "attribution_re =
     Group 1 (alts (map lit [''reported by'', ''according to'', ''sources from'', ''reported on'',
                             ''posted on'', ''via'', ''through'', ''in'']))"

text \<open>\<open>match[0]\<close> for the agency and website patterns, \<open>match[1] || match[0]\<close> for the
  others (an unset or empty group is falsy).\<close>

definition source_text :: "source_type \<Rightarrow> string \<times> caps \<Rightarrow> string" where
  "source_text ty m =
     (if ty = MajorNewsAgency then fst m
      else if ty = NewsWebsite then fst m
      else (case map_of (snd m) 1 of
              None \<Rightarrow> fst m
            | Some g \<Rightarrow> if g = [] then fst m else g))"

definition clean_source :: "string \<Rightarrow> string" where
  "clean_source source = trim (remove_all True attribution_re (remove_all False edge_punct_re source))"

definition confidence_of :: "source_type \<Rightarrow> confidence_tier" where
  "confidence_of ty =
     (if ty = MajorNewsAgency then High
      else if ty = OfficialSource then High
      else if ty = NewsWebsite then Medium
      else Low)"

text \<open>The loop state is the array \<open>sources\<close> and the set \<open>processedSources\<close>.\<close>

definition add_source ::
  "source_type \<Rightarrow> extracted_source list \<times> string list \<Rightarrow> string
     \<Rightarrow> extracted_source list \<times> string list" where
  "add_source ty st source =
     (if source \<noteq> [] \<and> \<not> List.member (snd st) (toLowerCase source)
      then (fst st @ [\<lparr>src_name = source, src_type = ty, src_confidence = confidence_of ty\<rparr>],
            snd st @ [toLowerCase source])
      else st)"

definition scan_pattern ::
  "string \<Rightarrow> extracted_source list \<times> string list \<Rightarrow> regex \<times> source_type
     \<Rightarrow> extracted_source list \<times> string list" where
  "scan_pattern content st pt =
     foldl (\<lambda>st m. add_source (snd pt) st (clean_source (source_text (snd pt) m)))
           st (matchAll True (fst pt) content)"

definition confidenceOrder :: "confidence_tier \<Rightarrow> int" where
  "confidenceOrder t = (case t of High \<Rightarrow> 3 | Medium \<Rightarrow> 2 | Low \<Rightarrow> 1)"

text \<open>\<open>Array.prototype.sort\<close> is stable; the comparator orders by descending
  \<open>confidenceOrder\<close>.\<close>

definition extractNewsSource :: "string \<Rightarrow> extracted_source list" where
  "extractNewsSource content =
     sort_key (\<lambda>a. - confidenceOrder (src_confidence a))
              (fst (foldl (scan_pattern content) ([], []) sourcePatterns))"

subsection \<open>Content factors\<close>

text \<open>\<open>calculateTextComplexity(text)\<close>.\<close>

definition complexWordPattern :: regex where
  "complexWordPattern =
     Alt (seqs [WordB, at_least 10 (Class False [CWord]), WordB])
         (seqs [WordB,
                alts (map lit [''therefore'', ''however'', ''furthermore'', ''consequently'',
                               ''nevertheless'']),
                WordB])"

definition calculateTextComplexity :: "string \<Rightarrow> jsnum" where
  "calculateTextComplexity text =
     (let words = filter (\<lambda>word. length word > 0) (split False whitespace_re text);
          sentences = filter (\<lambda>sentence. length sentence > 0) (split False sentence_end_re text);
          avgWordLength = jdiv (of_count (foldl (\<lambda>sum word. sum + length word) 0 words))
                               (of_count (length words));
          avgSentenceLength = jdiv (of_count (length words)) (of_count (length sentences));
          complexWords = length (match_g True complexWordPattern text);
          lengthScore = jmul (Math_min (jdiv avgWordLength (Fin 8)) (Fin 1)) (Fin (3 / 10));
          sentenceScore = jmul (Math_min (jdiv avgSentenceLength (Fin 25)) (Fin 1)) (Fin (3 / 10));
          complexityScore =
            jmul (Math_min (jdiv (of_count complexWords)
                                 (jmul (of_count (length words)) (Fin (1 / 10))))
                           (Fin 1))
                 (Fin (4 / 10))
      in jadd (jadd lengthScore sentenceScore) complexityScore)"

text \<open>\<open>countCitations(content)\<close>: each pattern with its \<open>i\<close> flag.\<close>

definition citationPatterns :: "(bool \<times> regex) list" where
  "citationPatterns =
     [(True, lit ''according to''),
      (True, lit ''cited by''),
      (True, lit ''reported by''),
      (True, lit ''source:''),
      (False, seqs [Chr CHR ''['', Plus digit, Chr CHR '']'']),
      (False, seqs [Chr CHR ''('', times 4 digit, Chr CHR '')''])]"

definition countCitations :: "string \<Rightarrow> nat" where
  "countCitations content =
     foldl (\<lambda>count p. count + length (match_g (fst p) (snd p) content)) 0 citationPatterns"

text \<open>\<open>extractQuotes(content)\<close>: the array holds the double-quote and the single-quote
  pattern twice each; the loop pushes \<open>match[1]\<close>, which both patterns always set.\<close>

definition double_quoted_re :: regex where
  "double_quoted_re =
     seqs [Chr CHR 0x22, Group 1 (Plus (Class True [CChar CHR 0x22])), Chr CHR 0x22]"

definition single_quoted_re :: regex where
  "single_quoted_re =
     seqs [Chr CHR 0x27, Group 1 (Plus (Class True [CChar CHR 0x27])), Chr CHR 0x27]"

definition quotePatterns :: "regex list" where
  "quotePatterns = [double_quoted_re, single_quoted_re, double_quoted_re, single_quoted_re]"

definition group1 :: "string \<times> caps \<Rightarrow> string" where
  "group1 m = (case map_of (snd m) 1 of None \<Rightarrow> [] | Some g \<Rightarrow> g)"

definition extractQuotes :: "string \<Rightarrow> string list" where
  "extractQuotes content =
     concat (map (\<lambda>pattern. map group1 (matchAll False pattern content)) quotePatterns)"

text \<open>\<open>extractDates(content)\<close>.\<close>

definition datePatterns :: "regex list" where
  "datePatterns =
     [seqs [WordB, between 1 2 digit, Chr CHR ''/'', between 1 2 digit, Chr CHR ''/'',
            between 2 4 digit, WordB],
      seqs [WordB, times 4 digit, Chr CHR ''-'', times 2 digit, Chr CHR ''-'', times 2 digit, WordB],
      seqs [WordB,
            alts (map lit [''Jan'', ''Feb'', ''Mar'', ''Apr'', ''May'', ''Jun'', ''Jul'', ''Aug'',
                           ''Sep'', ''Oct'', ''Nov'', ''Dec'']),
            Star (Class False [CRange CHR ''a'' CHR ''z'']),
            Chr CHR '' '', between 1 2 digit, Opt (Chr CHR '',''), Chr CHR '' '',
            times 4 digit, WordB]]"

definition extractDates :: "string \<Rightarrow> string list" where
  "extractDates content = concat (map (\<lambda>pattern. match_g False pattern content) datePatterns)"

text \<open>\<open>hasStatistics(content)\<close>: each pattern with its \<open>i\<close> flag.\<close>

definition statPatterns :: "(bool \<times> regex) list" where
  "statPatterns =
     [(False, Seq (Plus digit) (Chr CHR ''%'')),
      (False, seqs [Chr CHR ''$'', Plus digit, Opt (Seq (Chr CHR ''.'') (times 2 digit))]),
      (True, seqs [Plus digit, Chr CHR '' '', alts (map lit [''million'', ''billion'', ''trillion''])]),
      (True, alts [lit ''increased by'', Seq WordB (lit ''decreased by''), Seq WordB (lit ''grew by'')]),
      (True, alts (map lit [''statistics show'', ''according to data'', ''survey shows'']))]"

definition hasStatistics :: "string \<Rightarrow> bool" where
  "hasStatistics content = list_ex (\<lambda>p. re_test (fst p) (snd p) content) statPatterns"

record content_factors =
  cf_length :: nat
  cf_complexity :: jsnum
  cf_citations :: nat
  cf_quotes :: "string list"
  cf_dates :: "string list"
  cf_statistics :: bool

definition analyzeContentFactors :: "string \<Rightarrow> content_factors" where
  "analyzeContentFactors content =
     \<lparr>cf_length = length content,
      cf_complexity = calculateTextComplexity content,
      cf_citations = countCitations content,
      cf_quotes = extractQuotes content,
      cf_dates = extractDates content,
      cf_statistics = hasStatistics content\<rparr>"

section \<open>Similarity matcher and news verification\<close>

text \<open>\<open>calculateSimilarity(str1, str2)\<close>.  An argument is \<open>None\<close> when it is \<open>null\<close> or
  \<open>undefined\<close> (an article without title or description); the empty string is falsy
  too.  \<open>union.size\<close> is the number of distinct words.\<close>

definition falsy :: "string option \<Rightarrow> bool" where
  "falsy str = (case str of None \<Rightarrow> True | Some s \<Rightarrow> s = [])"

definition calculateSimilarity :: "string option \<Rightarrow> string option \<Rightarrow> jsnum" where
  "calculateSimilarity str1 str2 =
     (if falsy str1 \<or> falsy str2 then Fin 0
      else
        (let words1 = split False whitespace_re (toLowerCase (the str1));
             words2 = split False whitespace_re (toLowerCase (the str2));
             intersection = filter (\<lambda>word. List.member words2 word) words1;
             union = remdups (words1 @ words2)
         in jdiv (of_count (length intersection)) (of_count (length union))))"

text \<open>An article of the search response.  Its \<open>source\<close> is an object with a \<open>name\<close>,
  or it is \<open>undefined\<close> or \<open>null\<close>; on the last two \<open>article.source.name\<close> throws a
  \<open>TypeError\<close>.\<close>

datatype source_field = SourceUndefined | SourceNull | Source "string option"

record article =
  a_title :: "string option"
  a_description :: "string option"
  a_source :: source_field
  a_url :: "string option"
  a_publishedAt :: "string option"

record matched_article =
  m_title :: "string option"
  m_source :: "string option"
  m_url :: "string option"
  m_publishedAt :: "string option"

text \<open>The outcome of \<open>axios.get\<close>: the call threw (with a message), or it answered with
  \<open>data.status\<close> and \<open>data.articles\<close>.\<close>

datatype api_outcome = Threw string | Responded string "article list"

record news_result =
  isVerified :: bool
  nv_confidence :: jsnum
  matchedArticles :: "matched_article list"
  nv_error :: "string option"

fun join :: "string \<Rightarrow> string list \<Rightarrow> string" where
  "join sep [] = []"
| "join sep [w] = w"
| "join sep (w # ws) = w @ sep @ join sep ws"

text \<open>The query: the first five words longer than four characters, joined by \<open>OR\<close>.\<close>

definition query_keywords :: "string \<Rightarrow> string" where
  "query_keywords content =
     join '' OR '' (take 5 (filter (\<lambda>word. length word > 4) (split False whitespace_re content)))"

text \<open>The message of the \<open>TypeError\<close>, as Node words it; \<open>CHR 0x27\<close> is the apostrophe
  around the property name.\<close>

definition type_error_message :: "string \<Rightarrow> string" where
  "type_error_message what =
     ''Cannot read properties of '' @ what @ '' (reading '' @ [CHR 0x27] @ ''name'' @ [CHR 0x27] @ '')''"

fun to_matched :: "article list \<Rightarrow> string + matched_article list" where
  "to_matched [] = Inr []"
| "to_matched (a # as) =
     (case a_source a of
        SourceUndefined \<Rightarrow> Inl (type_error_message ''undefined'')
      | SourceNull \<Rightarrow> Inl (type_error_message ''null'')
      | Source source_name \<Rightarrow>
          (case to_matched as of
             Inl e \<Rightarrow> Inl e
           | Inr ms \<Rightarrow> Inr (\<lparr>m_title = a_title a, m_source = source_name, m_url = a_url a,
                               m_publishedAt = a_publishedAt a\<rparr> # ms)))"

definition degraded :: news_result where
  "degraded = \<lparr>isVerified = False, nv_confidence = Fin 0, matchedArticles = [], nv_error = None\<rparr>"

text \<open>The body of the \<open>try\<close> block of \<open>verifyWithNewsAPI\<close>: \<open>Inl\<close> is a thrown error
  with its message.  The search service is the function \<open>api\<close> of the query.\<close>

definition verify_try :: "(string \<Rightarrow> api_outcome) \<Rightarrow> string \<Rightarrow> string + news_result" where
  "verify_try api content =
     (case api (query_keywords content) of
        Threw msg \<Rightarrow> Inl msg
      | Responded status articles \<Rightarrow>
          if status = ''ok'' \<and> length articles > 0
          then
            (let similarityScores =
                   map (\<lambda>article.
                          Math_max (calculateSimilarity (Some content) (a_title article))
                                   (calculateSimilarity (Some content) (a_description article)))
                       articles;
                 maxSimilarity = Math_max_list similarityScores
             in case to_matched (take 3 articles) of
                  Inl e \<Rightarrow> Inl e
                | Inr ms \<Rightarrow>
                    Inr \<lparr>isVerified = jgt maxSimilarity (Fin (6 / 10)),
                         nv_confidence = Math_round (jmul maxSimilarity (Fin 100)),
                         matchedArticles = ms,
                         nv_error = None\<rparr>)
          else Inr degraded)"

text \<open>\<open>verifyWithNewsAPI(content)\<close>: the \<open>catch\<close> block turns every error of the body
  into the degraded result with the message in \<open>error\<close>.\<close>

definition verifyWithNewsAPI :: "(string \<Rightarrow> api_outcome) \<Rightarrow> string \<Rightarrow> news_result" where
  "verifyWithNewsAPI api content =
     (case verify_try api content of
        Inl msg \<Rightarrow> \<lparr>isVerified = False, nv_confidence = Fin 0, matchedArticles = [],
                     nv_error = Some msg\<rparr>
      | Inr result \<Rightarrow> result)"

section \<open>The pipeline\<close>

text \<open>The answer of the classifier (\<open>response.data\<close>), and the object parsed from the
  answer of the generative assessor.  A field of the latter that is missing reads as
  \<open>undefined\<close>, which the arithmetic turns into \<open>NaN\<close>.\<close>

record classification =
  labels :: "string list"
  scores :: "real list"

record assessment =
  as_credibilityScore :: jsnum
  as_truthScore :: jsnum
  as_confidence :: jsnum

text \<open>\<open>labels.indexOf(x)\<close> is \<open>-1\<close> when \<open>x\<close> is absent; \<open>scores[i]\<close> is \<open>undefined\<close>
  outside the array, and every use of it is an arithmetic one, where it is \<open>NaN\<close>.\<close>

fun index_from :: "string list \<Rightarrow> string \<Rightarrow> int \<Rightarrow> int" where
  "index_from [] x i = - 1"
| "index_from (y # ys) x i = (if y = x then i else index_from ys x (i + 1))"

definition indexOf :: "string list \<Rightarrow> string \<Rightarrow> int" where
  "indexOf xs x = index_from xs x 0"

definition score_at :: "real list \<Rightarrow> int \<Rightarrow> jsnum" where
  "score_at xs i = (if 0 \<le> i \<and> i < int (length xs) then Fin (xs ! nat i) else NaN)"

definition first_label :: "string list \<Rightarrow> string option" where
  "first_label ls = (case ls of [] \<Rightarrow> None | l # _ \<Rightarrow> Some l)"

text \<open>The constants \<open>credibilityScore\<close> and \<open>truthScore\<close> of \<open>checkContent\<close>, before the
  shift by 50.\<close>

definition local_credibility :: "classification \<Rightarrow> jsnum" where
  "local_credibility v =
     Math_round
       (jsub (jsub (jmul (score_at (scores v) (indexOf (labels v) ''factual'')) (Fin 100))
                   (jmul (score_at (scores v) (indexOf (labels v) ''misleading'')) (Fin 50)))
             (jmul (score_at (scores v) (indexOf (labels v) ''false'')) (Fin 100)))"

definition local_truth :: "classification \<Rightarrow> jsnum" where
  "local_truth v =
     Math_round
       (jsub (jmul (score_at (scores v) (indexOf (labels v) ''factual'')) (Fin 100))
             (jmul (score_at (scores v) (indexOf (labels v) ''false'')) (Fin 100)))"

text \<open>\<open>Math.max(0, Math.min(100, x + 50))\<close>.\<close>

definition shift_clamp :: "jsnum \<Rightarrow> jsnum" where
  "shift_clamp x = Math_max (Fin 0) (Math_min (Fin 100) (jadd x (Fin 50)))"

record details =
  factualScore :: jsnum
  misleadingScore :: jsnum
  falseScore :: jsnum
  opinionScore :: jsnum

record credibility_metrics =
  credibilityScore :: jsnum
  truthScore :: jsnum
  reliability_score :: jsnum
  reliability_label :: string
  reliability_confidence :: jsnum

record news_verification =
  nvr_isVerified :: bool
  nvr_confidence :: jsnum
  nvr_matchedArticles :: "matched_article list"
  nvr_verdict :: string

record combined_metrics =
  cm_credibilityScore :: jsnum
  cm_truthScore :: jsnum
  cm_confidence :: jsnum
  cm_newsReliability :: jsnum

text \<open>The report sent by \<open>res.json\<close>.  Left out: the echoed \<open>content\<close>, the
  \<open>timestamp\<close>, and the fields of \<open>sourceAnalysis\<close> and \<open>contentQuality\<close> that repeat
  \<open>sources\<close> and \<open>factors\<close>.  \<open>newsVerification\<close> copies three fields of the verifier's
  result and adds the verdict; the \<open>error\<close> field is not copied.\<close>

record report =
  isNews :: bool
  contentType :: "string option"
  contentConfidence :: jsnum
  factors :: content_factors
  verification_labels :: "string list"
  verification_scores :: "jsnum list"
  primaryClassification :: "string option"
  verification_details :: details
  sources :: "extracted_source list"
  credibilityMetrics :: credibility_metrics
  mistralAnalysis :: assessment
  newsVerification :: news_verification
  combinedMetrics :: combined_metrics

text \<open>The two ways \<open>checkContent\<close> answers without a report: status 400
  (\<open>Content is required\<close>) and status 500 (\<open>Analysis failed\<close>; the \<open>details\<close> text,
  the message of whichever call rejected first, is not modelled).\<close>

datatype error = ContentRequired | AnalysisFailed

text \<open>
  \<open>checkContent\<close>.  The outcomes of the awaited calls are parameters: \<open>typeCall\<close> and
  \<open>factCall\<close> are the two classifier calls behind \<open>retryWithTimeout\<close>, \<open>mistral\<close> is
  \<open>analyzeMistral\<close> (\<open>Inl\<close>: the call rejected), and \<open>api\<close> is the search service used
  by \<open>verifyWithNewsAPI\<close>, which never rejects.
\<close>

definition build_report ::
  "string \<Rightarrow> classification \<Rightarrow> classification \<Rightarrow> assessment \<Rightarrow> news_result \<Rightarrow> report" where
  "build_report content newsClassification verificationResult mistralResult newsApiResult =
     (let contentConfidence0 = score_at (scores newsClassification) 0;
          factualIndex = indexOf (labels verificationResult) ''factual'';
          misleadingIndex = indexOf (labels verificationResult) ''misleading'';
          falseIndex = indexOf (labels verificationResult) ''false'';
          opinionIndex = indexOf (labels verificationResult) ''opinion'';
          credibilityScore0 = local_credibility verificationResult;
          truthScore0 = local_truth verificationResult;
          percent = (\<lambda>i. Math_round (jmul (score_at (scores verificationResult) i) (Fin 100)));
          confidence0 = Math_round (jmul contentConfidence0 (Fin 100));
          metrics =
            \<lparr>credibilityScore = shift_clamp credibilityScore0,
             truthScore = shift_clamp truthScore0,
             reliability_score = percent factualIndex,
             reliability_label = getReliabilityLevel credibilityScore0,
             reliability_confidence = confidence0\<rparr>
      in \<lparr>isNews = (first_label (labels newsClassification) = Some ''news article''),
          contentType = first_label (labels newsClassification),
          contentConfidence = confidence0,
          factors = analyzeContentFactors content,
          verification_labels = labels verificationResult,
          verification_scores =
            map (\<lambda>score. Math_round (jmul (Fin score) (Fin 100))) (scores verificationResult),
          primaryClassification = first_label (labels verificationResult),
          verification_details =
            \<lparr>factualScore = percent factualIndex,
             misleadingScore = percent misleadingIndex,
             falseScore = percent falseIndex,
             opinionScore = percent opinionIndex\<rparr>,
          sources = extractNewsSource content,
          credibilityMetrics = metrics,
          mistralAnalysis = mistralResult,
          newsVerification =
            \<lparr>nvr_isVerified = isVerified newsApiResult,
             nvr_confidence = nv_confidence newsApiResult,
             nvr_matchedArticles = matchedArticles newsApiResult,
             nvr_verdict = (if isVerified newsApiResult then ''REAL'' else ''POTENTIALLY FAKE'')\<rparr>,
          combinedMetrics =
            \<lparr>cm_credibilityScore =
               combineScores (credibilityScore metrics) (as_credibilityScore mistralResult),
             cm_truthScore = combineScores (truthScore metrics) (as_truthScore mistralResult),
             cm_confidence =
               Math_round (jdiv (jadd confidence0 (as_confidence mistralResult)) (Fin 2)),
             cm_newsReliability = nv_confidence newsApiResult\<rparr>\<rparr>)"

definition checkContent ::
  "(string \<Rightarrow> api_outcome) \<Rightarrow> string + classification \<Rightarrow> string + classification
     \<Rightarrow> string + assessment \<Rightarrow> string \<Rightarrow> error + report" where
  "checkContent api typeCall factCall mistral content =
     (if content = [] then Inl ContentRequired
      else
        (case (typeCall, factCall, mistral) of
           (Inr newsClassification, Inr verificationResult, Inr mistralResult) \<Rightarrow>
             Inr (build_report content newsClassification verificationResult mistralResult
                               (verifyWithNewsAPI api content))
         | _ \<Rightarrow> Inl AnalysisFailed))"

section \<open>The scenario text of the specification\<close>

definition scenario_text :: string where
  "scenario_text = ''According to Reuters, officials confirmed 50% of votes were counted on 01/05/2024. \"It was fair,\" said the spokesperson.''"

section \<open>Auxiliary facts\<close>

lemma index_from_absent: "x \<notin> set xs \<Longrightarrow> index_from xs x i = - 1"
  by (induction xs arbitrary: i) auto

lemma index_from_present:
  "x \<in> set xs \<Longrightarrow> i \<le> index_from xs x i \<and> index_from xs x i < i + int (length xs)"
proof (induction xs arbitrary: i)
  case Nil
  then show ?case by simp
next
  case (Cons y ys)
  show ?case
  proof (cases "y = x")
    case True
    then show ?thesis by simp
  next
    case False
    with Cons.prems have "x \<in> set ys" by simp
    from Cons.IH [OF this, of "i + 1"] False show ?thesis by simp
  qed
qed

lemma score_at_absent: "x \<notin> set ls \<Longrightarrow> score_at ss (indexOf ls x) = NaN"
  by (simp add: score_at_def indexOf_def index_from_absent)

lemma score_at_present:
  assumes "x \<in> set ls" and "length ls \<le> length ss"
  shows "\<exists>r. score_at ss (indexOf ls x) = Fin r"
proof -
  from index_from_present [OF assms(1), of 0]
  have "0 \<le> indexOf ls x" and "indexOf ls x < int (length ls)"
    by (simp_all add: indexOf_def)
  with assms(2) show ?thesis
    by (simp add: score_at_def)
qed

lemma shift_clamp_Fin: "shift_clamp (Fin x) = Fin (max 0 (min 100 (x + 50)))"
  by (simp add: shift_clamp_def max_def min_def)

lemma shift_clamp_NaN: "shift_clamp NaN = NaN"
  by (simp add: shift_clamp_def)

lemma combineScores_Fin:
  "combineScores (Fin l) (Fin e) = Fin (of_int (round (l * (6 / 10) + e * (4 / 10))))"
  by (simp add: combineScores_def combineScores_w_def round_def)

lemma combineScores_NaN: "combineScores NaN e = NaN"
  by (simp add: combineScores_def combineScores_w_def)

lemma round_percent:
  fixes x :: real
  assumes "0 \<le> x" and "x \<le> 100"
  shows "0 \<le> round x" and "round x \<le> 100"
proof -
  have "round (0::real) \<le> round x" using assms(1) by (rule round_mono)
  then show "0 \<le> round x" by simp
  have "round x \<le> round (100::real)" using assms(2) by (rule round_mono)
  then show "round x \<le> 100" by simp
qed

lemma report_local_scores:
  "credibilityScore (credibilityMetrics (build_report content c v m n)) = shift_clamp (local_credibility v)"
  "truthScore (credibilityMetrics (build_report content c v m n)) = shift_clamp (local_truth v)"
  "reliability_label (credibilityMetrics (build_report content c v m n)) = getReliabilityLevel (local_credibility v)"
  by (simp_all add: build_report_def Let_def)

lemma report_details:
  "factualScore (verification_details (build_report content c v m n)) =
     Math_round (jmul (score_at (scores v) (indexOf (labels v) ''factual'')) (Fin 100))"
  "misleadingScore (verification_details (build_report content c v m n)) =
     Math_round (jmul (score_at (scores v) (indexOf (labels v) ''misleading'')) (Fin 100))"
  "falseScore (verification_details (build_report content c v m n)) =
     Math_round (jmul (score_at (scores v) (indexOf (labels v) ''false'')) (Fin 100))"
  "opinionScore (verification_details (build_report content c v m n)) =
     Math_round (jmul (score_at (scores v) (indexOf (labels v) ''opinion'')) (Fin 100))"
  by (simp_all add: build_report_def Let_def)

lemma report_combined:
  "cm_credibilityScore (combinedMetrics (build_report content c v m n)) =
     combineScores (shift_clamp (local_credibility v)) (as_credibilityScore m)"
  "cm_truthScore (combinedMetrics (build_report content c v m n)) =
     combineScores (shift_clamp (local_truth v)) (as_truthScore m)"
  "cm_confidence (combinedMetrics (build_report content c v m n)) =
     Math_round (jdiv (jadd (Math_round (jmul (score_at (scores c) 0) (Fin 100))) (as_confidence m)) (Fin 2))"
  "cm_newsReliability (combinedMetrics (build_report content c v m n)) = nv_confidence n"
  "newsVerification (build_report content c v m n) =
     \<lparr>nvr_isVerified = isVerified n, nvr_confidence = nv_confidence n,
      nvr_matchedArticles = matchedArticles n,
      nvr_verdict = (if isVerified n then ''REAL'' else ''POTENTIALLY FAKE'')\<rparr>"
  by (simp_all add: build_report_def Let_def)

lemma checkContent_success:
  "content \<noteq> [] \<Longrightarrow>
   checkContent api (Inr c) (Inr v) (Inr m) content =
     Inr (build_report content c v m (verifyWithNewsAPI api content))"
  by (simp add: checkContent_def)

lemma checkContent_Inr:
  assumes "checkContent api typeCall factCall mistral content = Inr rep"
  shows "\<exists>c v m. typeCall = Inr c \<and> factCall = Inr v \<and> mistral = Inr m \<and> content \<noteq> [] \<and>
           rep = build_report content c v m (verifyWithNewsAPI api content)"
  using assms by (auto simp: checkContent_def split: if_splits sum.splits)

lemma local_credibility_Fin:
  assumes "score_at (scores v) (indexOf (labels v) ''factual'') = Fin f"
    and "score_at (scores v) (indexOf (labels v) ''misleading'') = Fin mi"
    and "score_at (scores v) (indexOf (labels v) ''false'') = Fin fl"
  shows "local_credibility v = Fin (of_int (round (f * 100 - mi * 50 - fl * 100)))"
    and "local_truth v = Fin (of_int (round (f * 100 - fl * 100)))"
  using assms by (simp_all add: local_credibility_def local_truth_def jsub_def round_def)

lemma combineScores_percent:
  assumes "0 \<le> l" "l \<le> 100" "0 \<le> e" "e \<le> 100"
  shows "\<exists>k::int. 0 \<le> k \<and> k \<le> 100 \<and> combineScores (Fin l) (Fin e) = Fin (of_int k)"
proof -
  let ?x = "l * (6 / 10) + e * (4 / 10)"
  have "0 \<le> ?x" using assms by simp
  moreover have "?x \<le> 100" using assms by simp
  ultimately have "0 \<le> round ?x" "round ?x \<le> 100"
    by (rule round_percent)+
  then show ?thesis
    by (intro exI [of _ "round ?x"]) (simp add: combineScores_Fin)
qed

lemma shift_clamp_percent:
  "\<exists>l. 0 \<le> l \<and> l \<le> 100 \<and> shift_clamp (Fin (of_int i)) = Fin l"
  by (simp add: shift_clamp_Fin)

lemma local_NaN:
  "score_at (scores v) (indexOf (labels v) ''factual'') = NaN \<Longrightarrow> local_credibility v = NaN"
  "score_at (scores v) (indexOf (labels v) ''factual'') = NaN \<Longrightarrow> local_truth v = NaN"
  "score_at (scores v) (indexOf (labels v) ''misleading'') = NaN \<Longrightarrow> local_credibility v = NaN"
  "score_at (scores v) (indexOf (labels v) ''false'') = NaN \<Longrightarrow> local_credibility v = NaN"
  "score_at (scores v) (indexOf (labels v) ''false'') = NaN \<Longrightarrow> local_truth v = NaN"
proof -
  have sub_l: "jsub NaN b = NaN" for b by (simp add: jsub_def)
  have sub_r: "jsub a NaN = NaN" for a by (cases a) (simp_all add: jsub_def)
  have round_sub: "Math_round (jsub a NaN) = NaN" for a by (simp add: sub_r)
  show "score_at (scores v) (indexOf (labels v) ''factual'') = NaN \<Longrightarrow> local_credibility v = NaN"
    by (simp add: local_credibility_def sub_l)
  show "score_at (scores v) (indexOf (labels v) ''factual'') = NaN \<Longrightarrow> local_truth v = NaN"
    by (simp add: local_truth_def sub_l)
  show "score_at (scores v) (indexOf (labels v) ''misleading'') = NaN \<Longrightarrow> local_credibility v = NaN"
    by (simp add: local_credibility_def sub_l sub_r)
  show "score_at (scores v) (indexOf (labels v) ''false'') = NaN \<Longrightarrow> local_credibility v = NaN"
    by (simp add: local_credibility_def sub_r)
  show "score_at (scores v) (indexOf (labels v) ''false'') = NaN \<Longrightarrow> local_truth v = NaN"
    by (simp add: local_truth_def sub_r)
qed

lemma verify_threw:
  "api (query_keywords content) = Threw msg \<Longrightarrow> verify_try api content = Inl msg"
  by (simp add: verify_try_def)

lemma verify_no_results:
  "api (query_keywords content) = Responded status [] \<Longrightarrow> verify_try api content = Inr degraded"
  by (simp add: verify_try_def)

lemma verify_not_ok:
  "api (query_keywords content) = Responded status articles \<Longrightarrow> status \<noteq> ''ok'' \<Longrightarrow>
   verify_try api content = Inr degraded"
  by (simp add: verify_try_def)

lemma verify_caught:
  "verify_try api content = Inl e \<Longrightarrow>
   verifyWithNewsAPI api content =
     \<lparr>isVerified = False, nv_confidence = Fin 0, matchedArticles = [], nv_error = Some e\<rparr>"
  by (simp add: verifyWithNewsAPI_def)

lemma verify_degraded:
  "verify_try api content = Inr degraded \<Longrightarrow>
   verifyWithNewsAPI api content =
     \<lparr>isVerified = False, nv_confidence = Fin 0, matchedArticles = [], nv_error = None\<rparr>"
  by (simp add: verifyWithNewsAPI_def degraded_def)

lemma index_from_append:
  "l \<noteq> o' \<Longrightarrow> index_from (ls @ [o']) l i = index_from ls l i"
  by (induction ls arbitrary: i) auto

lemma indexOf_append: "l \<noteq> o' \<Longrightarrow> indexOf (ls @ [o']) l = indexOf ls l"
  by (simp add: indexOf_def index_from_append)

lemma indexOf_less: "indexOf ls l < int (length ls) \<or> indexOf ls l = - 1"
proof (cases "l \<in> set ls")
  case True
  from index_from_present [OF this, of 0] show ?thesis by (simp add: indexOf_def)
next
  case False
  then show ?thesis by (simp add: indexOf_def index_from_absent)
qed

lemma score_at_append:
  "i < int (length ss) \<Longrightarrow> score_at (ss @ [x]) i = score_at ss i"
  by (auto simp: score_at_def nth_append)

lemma lookup_append:
  assumes "l \<noteq> o'" and "length ls = length ss"
  shows "score_at (ss @ [x]) (indexOf (ls @ [o']) l) = score_at ss (indexOf ls l)"
proof -
  have "indexOf ls l < int (length ss)"
    using indexOf_less [of ls l] assms(2) by auto
  then show ?thesis
    by (simp add: indexOf_append [OF assms(1)] score_at_append)
qed

lemma report_frame:
  assumes "length (labels v) = length (scores v)"
  shows "build_report content c v m n =
           (build_report content c
              \<lparr>labels = labels v @ [''opinion''], scores = scores v @ [x]\<rparr> m n)
           \<lparr>verification_labels := labels v,
            verification_scores :=
              map (\<lambda>score. Math_round (jmul (Fin score) (Fin 100))) (scores v),
            primaryClassification := first_label (labels v),
            verification_details :=
              (verification_details
                 (build_report content c
                    \<lparr>labels = labels v @ [''opinion''], scores = scores v @ [x]\<rparr> m n))
              \<lparr>opinionScore :=
                 Math_round (jmul (score_at (scores v) (indexOf (labels v) ''opinion'')) (Fin 100))\<rparr>\<rparr>"
proof -
  have f: "score_at (scores v @ [x]) (indexOf (labels v @ [''opinion'']) ''factual'')
             = score_at (scores v) (indexOf (labels v) ''factual'')"
    by (rule lookup_append [OF _ assms]) simp
  have mi: "score_at (scores v @ [x]) (indexOf (labels v @ [''opinion'']) ''misleading'')
             = score_at (scores v) (indexOf (labels v) ''misleading'')"
    by (rule lookup_append [OF _ assms]) simp
  have fl: "score_at (scores v @ [x]) (indexOf (labels v @ [''opinion'']) ''false'')
             = score_at (scores v) (indexOf (labels v) ''false'')"
    by (rule lookup_append [OF _ assms]) simp
  show ?thesis
    by (simp add: build_report_def Let_def local_credibility_def local_truth_def f mi fl)
qed

text \<open>The extractors evaluated on the scenario text.\<close>

lemma scenario_sources:
  "extractNewsSource scenario_text =
     [\<lparr>src_name = ''Reuters'', src_type = MajorNewsAgency, src_confidence = High\<rparr>]"
  by code_simp

lemma scenario_quotes: "extractQuotes scenario_text = [''It was fair,'', ''It was fair,'']"
  by code_simp

lemma scenario_dates: "extractDates scenario_text = [''01/05/2024'']"
  by code_simp

lemma scenario_statistics: "hasStatistics scenario_text = True"
  by code_simp

section \<open>Properties\<close>

text \<open>
  C1, as amended.  When the factuality answer carries the labels \<open>factual\<close>,
  \<open>misleading\<close> and \<open>false\<close> with index-aligned scores in \<open>[0,1]\<close>, the top content-type
  score lies in \<open>[0,1]\<close> and the three values of the generative assessor are numbers in
  \<open>[0,100]\<close>,
  the fields \<open>credibilityScore\<close>, \<open>truthScore\<close> and \<open>confidence\<close> of \<open>combinedMetrics\<close>
  are integers in \<open>[0,100]\<close>, and \<open>newsReliability\<close> is the confidence of the news verifier,
  passed through unchanged.
\<close>

theorem combined_metrics_bounded:
  assumes run: "checkContent api (Inr c) (Inr v) (Inr m) content = Inr rep"
    and present: "''factual'' \<in> set (labels v)" "''misleading'' \<in> set (labels v)"
                 "''false'' \<in> set (labels v)"
    and aligned: "length (labels v) = length (scores v)"
    and bounded: "list_all (\<lambda>x. 0 \<le> x \<and> x \<le> 1) (scores v)"
    and top: "score_at (scores c) 0 = Fin s" "0 \<le> s" "s \<le> 1"
    and ecred: "as_credibilityScore m = Fin ec" "0 \<le> ec" "ec \<le> 100"
    and etruth: "as_truthScore m = Fin et" "0 \<le> et" "et \<le> 100"
    and econf: "as_confidence m = Fin ek" "0 \<le> ek" "ek \<le> 100"
  shows "(\<exists>k::int. 0 \<le> k \<and> k \<le> 100 \<and> cm_credibilityScore (combinedMetrics rep) = Fin (of_int k))
       \<and> (\<exists>k::int. 0 \<le> k \<and> k \<le> 100 \<and> cm_truthScore (combinedMetrics rep) = Fin (of_int k))
       \<and> (\<exists>k::int. 0 \<le> k \<and> k \<le> 100 \<and> cm_confidence (combinedMetrics rep) = Fin (of_int k))
       \<and> cm_newsReliability (combinedMetrics rep) = nv_confidence (verifyWithNewsAPI api content)"
proof -
  from checkContent_Inr [OF run]
  have rep: "rep = build_report content c v m (verifyWithNewsAPI api content)"
    by auto
  from aligned have le: "length (labels v) \<le> length (scores v)" by simp
  from score_at_present [OF present(1) le] obtain f where
    f: "score_at (scores v) (indexOf (labels v) ''factual'') = Fin f" ..
  from score_at_present [OF present(2) le] obtain mi where
    mi: "score_at (scores v) (indexOf (labels v) ''misleading'') = Fin mi" ..
  from score_at_present [OF present(3) le] obtain fl where
    fl: "score_at (scores v) (indexOf (labels v) ''false'') = Fin fl" ..
  note loc = local_credibility_Fin [OF f mi fl]
  from shift_clamp_percent obtain lc where
    lc: "0 \<le> lc" "lc \<le> 100" "shift_clamp (local_credibility v) = Fin lc"
    unfolding loc by blast
  from shift_clamp_percent obtain lt where
    lt: "0 \<le> lt" "lt \<le> 100" "shift_clamp (local_truth v) = Fin lt"
    unfolding loc by blast
  have cred: "\<exists>k::int. 0 \<le> k \<and> k \<le> 100 \<and> cm_credibilityScore (combinedMetrics rep) = Fin (of_int k)"
    using combineScores_percent [OF lc(1) lc(2) ecred(2) ecred(3)]
    by (simp add: rep report_combined lc(3) ecred(1))
  have truth: "\<exists>k::int. 0 \<le> k \<and> k \<le> 100 \<and> cm_truthScore (combinedMetrics rep) = Fin (of_int k)"
    using combineScores_percent [OF lt(1) lt(2) etruth(2) etruth(3)]
    by (simp add: rep report_combined lt(3) etruth(1))
  have conf: "\<exists>k::int. 0 \<le> k \<and> k \<le> 100 \<and> cm_confidence (combinedMetrics rep) = Fin (of_int k)"
  proof -
    have "0 \<le> s * 100" "s * 100 \<le> 100" using top(2) top(3) by simp_all
    then have p: "0 \<le> round (s * 100)" "round (s * 100) \<le> 100"
      by (rule round_percent)+
    let ?y = "(of_int (round (s * 100)) + ek) / 2"
    have "0 \<le> ?y" using p(1) econf(2) by simp
    moreover have "?y \<le> 100" using p(2) econf(3) by simp
    ultimately have q: "0 \<le> round ?y" "round ?y \<le> 100"
      by (rule round_percent)+
    have "cm_confidence (combinedMetrics rep) = Fin (of_int (round ?y))"
      by (simp add: rep report_combined top(1) econf(1) round_def)
    with q show ?thesis by blast
  qed
  have news: "cm_newsReliability (combinedMetrics rep) = nv_confidence (verifyWithNewsAPI api content)"
    by (simp add: rep report_combined)
  from cred truth conf news show ?thesis by blast
qed

theorem combined_metrics_bounded_witness:
  "checkContent (\<lambda>q. Threw ''Network Error'')
     (Inr \<lparr>labels = [''news article'', ''blog post''], scores = [9 / 10, 1 / 10]\<rparr>)
     (Inr \<lparr>labels = [''factual'', ''misleading'', ''false''], scores = [7 / 10, 2 / 10, 1 / 10]\<rparr>)
     (Inr \<lparr>as_credibilityScore = Fin 80, as_truthScore = Fin 70, as_confidence = Fin 60\<rparr>)
     ''Breaking news'' =
   Inr (build_report ''Breaking news''
           \<lparr>labels = [''news article'', ''blog post''], scores = [9 / 10, 1 / 10]\<rparr>
           \<lparr>labels = [''factual'', ''misleading'', ''false''], scores = [7 / 10, 2 / 10, 1 / 10]\<rparr>
           \<lparr>as_credibilityScore = Fin 80, as_truthScore = Fin 70, as_confidence = Fin 60\<rparr>
           (verifyWithNewsAPI (\<lambda>q. Threw ''Network Error'') ''Breaking news''))
   \<and> (\<exists>k::int. 0 \<le> k \<and> k \<le> 100 \<and>
      cm_credibilityScore (combinedMetrics
        (build_report ''Breaking news''
           \<lparr>labels = [''news article'', ''blog post''], scores = [9 / 10, 1 / 10]\<rparr>
           \<lparr>labels = [''factual'', ''misleading'', ''false''], scores = [7 / 10, 2 / 10, 1 / 10]\<rparr>
           \<lparr>as_credibilityScore = Fin 80, as_truthScore = Fin 70, as_confidence = Fin 60\<rparr>
           (verifyWithNewsAPI (\<lambda>q. Threw ''Network Error'') ''Breaking news''))) = Fin (of_int k))
   \<and> cm_newsReliability (combinedMetrics
        (build_report ''Breaking news''
           \<lparr>labels = [''news article'', ''blog post''], scores = [9 / 10, 1 / 10]\<rparr>
           \<lparr>labels = [''factual'', ''misleading'', ''false''], scores = [7 / 10, 2 / 10, 1 / 10]\<rparr>
           \<lparr>as_credibilityScore = Fin 80, as_truthScore = Fin 70, as_confidence = Fin 60\<rparr>
           (verifyWithNewsAPI (\<lambda>q. Threw ''Network Error'') ''Breaking news''))) = Fin 0"
proof -
  let ?api = "\<lambda>q :: string. Threw ''Network Error''"
  let ?c = "\<lparr>labels = [''news article'', ''blog post''], scores = [9 / 10, 1 / 10 :: real]\<rparr>"
  let ?v = "\<lparr>labels = [''factual'', ''misleading'', ''false''], scores = [7 / 10, 2 / 10, 1 / 10 :: real]\<rparr>"
  let ?m = "\<lparr>as_credibilityScore = Fin 80, as_truthScore = Fin 70, as_confidence = Fin 60\<rparr>"
  have run: "checkContent ?api (Inr ?c) (Inr ?v) (Inr ?m) ''Breaking news'' =
               Inr (build_report ''Breaking news'' ?c ?v ?m (verifyWithNewsAPI ?api ''Breaking news''))"
    by (simp add: checkContent_def)
  have news: "nv_confidence (verifyWithNewsAPI ?api ''Breaking news'') = Fin 0"
    by (simp add: verifyWithNewsAPI_def verify_try_def)
  have top: "score_at (scores ?c) 0 = Fin (9 / 10)"
    by (simp add: score_at_def)
  from combined_metrics_bounded [OF run _ _ _ _ _ top, of 80 70 60] news
  have "(\<exists>k::int. 0 \<le> k \<and> k \<le> 100 \<and>
           cm_credibilityScore (combinedMetrics
             (build_report ''Breaking news'' ?c ?v ?m (verifyWithNewsAPI ?api ''Breaking news''))) =
           Fin (of_int k))
      \<and> cm_newsReliability (combinedMetrics
             (build_report ''Breaking news'' ?c ?v ?m (verifyWithNewsAPI ?api ''Breaking news''))) = Fin 0"
    by simp
  with run show ?thesis by blast
qed

text \<open>
  C1 as stated fails: the values of the generative assessor are used as they come.  With
  local credibility 100 and an assessor credibility of 200 the combined credibility is
  \<open>round(100 * 0.6 + 200 * 0.4) = 140\<close>.
\<close>

theorem combined_metrics_counterexample:
  "\<not> isl (checkContent (\<lambda>q. Threw ''Network Error'')
             (Inr \<lparr>labels = [''news article'', ''blog post''], scores = [9 / 10, 1 / 10]\<rparr>)
             (Inr \<lparr>labels = [''factual'', ''misleading'', ''false'', ''opinion'', ''unverified''],
                   scores = [7 / 10, 1 / 10, 5 / 100, 1 / 10, 5 / 100]\<rparr>)
             (Inr \<lparr>as_credibilityScore = Fin 200, as_truthScore = Fin 50, as_confidence = Fin 50\<rparr>)
             ''Breaking news'')
   \<and> cm_credibilityScore (combinedMetrics (projr
          (checkContent (\<lambda>q. Threw ''Network Error'')
             (Inr \<lparr>labels = [''news article'', ''blog post''], scores = [9 / 10, 1 / 10]\<rparr>)
             (Inr \<lparr>labels = [''factual'', ''misleading'', ''false'', ''opinion'', ''unverified''],
                   scores = [7 / 10, 1 / 10, 5 / 100, 1 / 10, 5 / 100]\<rparr>)
             (Inr \<lparr>as_credibilityScore = Fin 200, as_truthScore = Fin 50, as_confidence = Fin 50\<rparr>)
             ''Breaking news''))) = Fin 140"
proof -
  let ?v = "\<lparr>labels = [''factual'', ''misleading'', ''false'', ''opinion'', ''unverified''],
             scores = [7 / 10, 1 / 10, 5 / 100, 1 / 10, 5 / 100 :: real]\<rparr>"
  have raw: "local_credibility ?v = Fin 60"
    by (simp add: local_credibility_def indexOf_def score_at_def jsub_def)
  have "combineScores (shift_clamp (Fin 60)) (Fin 200) = Fin 140"
    by (simp add: shift_clamp_Fin combineScores_Fin)
  then show ?thesis
    unfolding checkContent_def by (simp add: report_combined raw [simplified])
qed



text \<open>
  C3, as amended.  A missing factuality label raises no error: for every non-empty
  submission whose three awaited calls succeed a report is produced, and in it the score of
  a missing label is \<open>NaN\<close>.  A missing \<open>factual\<close> or \<open>false\<close> label makes the local and
  combined credibility and truth scores \<open>NaN\<close>, a missing \<open>misleading\<close> label the
  credibility scores.  A missing \<open>opinion\<close> label affects only \<open>opinionScore\<close>: with
  index-aligned labels and scores, the report is the report for the same answer with an
  \<open>opinion\<close> entry appended (whatever its score), except that \<open>opinionScore\<close> is \<open>NaN\<close>
  and that the echoed labels, scores and primary classification are those of the answer
  received.
\<close>

theorem missing_label_yields_NaN:
  assumes "content \<noteq> []"
  shows "\<exists>rep. checkContent api (Inr c) (Inr v) (Inr m) content = Inr rep
     \<and> (''factual'' \<notin> set (labels v) \<longrightarrow>
          factualScore (verification_details rep) = NaN
          \<and> credibilityScore (credibilityMetrics rep) = NaN
          \<and> truthScore (credibilityMetrics rep) = NaN
          \<and> cm_credibilityScore (combinedMetrics rep) = NaN
          \<and> cm_truthScore (combinedMetrics rep) = NaN)
     \<and> (''misleading'' \<notin> set (labels v) \<longrightarrow>
          misleadingScore (verification_details rep) = NaN
          \<and> credibilityScore (credibilityMetrics rep) = NaN
          \<and> cm_credibilityScore (combinedMetrics rep) = NaN)
     \<and> (''false'' \<notin> set (labels v) \<longrightarrow>
          falseScore (verification_details rep) = NaN
          \<and> credibilityScore (credibilityMetrics rep) = NaN
          \<and> truthScore (credibilityMetrics rep) = NaN
          \<and> cm_credibilityScore (combinedMetrics rep) = NaN
          \<and> cm_truthScore (combinedMetrics rep) = NaN)
     \<and> (''opinion'' \<notin> set (labels v) \<longrightarrow>
          opinionScore (verification_details rep) = NaN
          \<and> (length (labels v) = length (scores v) \<longrightarrow>
               (\<forall>x. rep =
                  (build_report content c
                     \<lparr>labels = labels v @ [''opinion''], scores = scores v @ [x]\<rparr> m
                     (verifyWithNewsAPI api content))
                  \<lparr>verification_labels := labels v,
                   verification_scores :=
                     map (\<lambda>score. Math_round (jmul (Fin score) (Fin 100))) (scores v),
                   primaryClassification := first_label (labels v),
                   verification_details :=
                     (verification_details
                        (build_report content c
                           \<lparr>labels = labels v @ [''opinion''], scores = scores v @ [x]\<rparr> m
                           (verifyWithNewsAPI api content)))
                     \<lparr>opinionScore := NaN\<rparr>\<rparr>)))"
proof -
  let ?rep = "build_report content c v m (verifyWithNewsAPI api content)"
  have run: "checkContent api (Inr c) (Inr v) (Inr m) content = Inr ?rep"
    using assms by (rule checkContent_success)
  have factual: "''factual'' \<notin> set (labels v) \<longrightarrow>
          factualScore (verification_details ?rep) = NaN
          \<and> credibilityScore (credibilityMetrics ?rep) = NaN
          \<and> truthScore (credibilityMetrics ?rep) = NaN
          \<and> cm_credibilityScore (combinedMetrics ?rep) = NaN
          \<and> cm_truthScore (combinedMetrics ?rep) = NaN"
    by (simp add: report_details report_local_scores report_combined score_at_absent local_NaN
                  shift_clamp_NaN combineScores_NaN)
  have misleading: "''misleading'' \<notin> set (labels v) \<longrightarrow>
          misleadingScore (verification_details ?rep) = NaN
          \<and> credibilityScore (credibilityMetrics ?rep) = NaN
          \<and> cm_credibilityScore (combinedMetrics ?rep) = NaN"
    by (simp add: report_details report_local_scores report_combined score_at_absent local_NaN
                  shift_clamp_NaN combineScores_NaN)
  have false: "''false'' \<notin> set (labels v) \<longrightarrow>
          falseScore (verification_details ?rep) = NaN
          \<and> credibilityScore (credibilityMetrics ?rep) = NaN
          \<and> truthScore (credibilityMetrics ?rep) = NaN
          \<and> cm_credibilityScore (combinedMetrics ?rep) = NaN
          \<and> cm_truthScore (combinedMetrics ?rep) = NaN"
    by (simp add: report_details report_local_scores report_combined score_at_absent local_NaN
                  shift_clamp_NaN combineScores_NaN)
  have opinion: "''opinion'' \<notin> set (labels v) \<longrightarrow>
          opinionScore (verification_details ?rep) = NaN
          \<and> (length (labels v) = length (scores v) \<longrightarrow>
               (\<forall>x. ?rep =
                  (build_report content c
                     \<lparr>labels = labels v @ [''opinion''], scores = scores v @ [x]\<rparr> m
                     (verifyWithNewsAPI api content))
                  \<lparr>verification_labels := labels v,
                   verification_scores :=
                     map (\<lambda>score. Math_round (jmul (Fin score) (Fin 100))) (scores v),
                   primaryClassification := first_label (labels v),
                   verification_details :=
                     (verification_details
                        (build_report content c
                           \<lparr>labels = labels v @ [''opinion''], scores = scores v @ [x]\<rparr> m
                           (verifyWithNewsAPI api content)))
                     \<lparr>opinionScore := NaN\<rparr>\<rparr>))"
  proof (intro impI conjI allI)
    assume absent: "''opinion'' \<notin> set (labels v)"
    then show "opinionScore (verification_details ?rep) = NaN"
      by (simp add: report_details score_at_absent)
    fix x
    assume "length (labels v) = length (scores v)"
    from report_frame [OF this, of content c m "verifyWithNewsAPI api content" x]
    show "?rep =
            (build_report content c
               \<lparr>labels = labels v @ [''opinion''], scores = scores v @ [x]\<rparr> m
               (verifyWithNewsAPI api content))
            \<lparr>verification_labels := labels v,
             verification_scores :=
               map (\<lambda>score. Math_round (jmul (Fin score) (Fin 100))) (scores v),
             primaryClassification := first_label (labels v),
             verification_details :=
               (verification_details
                  (build_report content c
                     \<lparr>labels = labels v @ [''opinion''], scores = scores v @ [x]\<rparr> m
                     (verifyWithNewsAPI api content)))
               \<lparr>opinionScore := NaN\<rparr>\<rparr>"
      by (simp add: score_at_absent [OF absent])
  qed
  from run factual misleading false opinion show ?thesis by blast
qed

theorem missing_label_yields_NaN_witness:
  "''Breaking news'' \<noteq> []
   \<and> ''factual'' \<notin> set [''misleading'', ''false'', ''opinion'', ''unverified'']
   \<and> (\<exists>rep. checkContent (\<lambda>q. Threw ''Network Error'')
             (Inr \<lparr>labels = [''news article'', ''blog post''], scores = [9 / 10, 1 / 10]\<rparr>)
             (Inr \<lparr>labels = [''misleading'', ''false'', ''opinion'', ''unverified''],
                   scores = [4 / 10, 3 / 10, 2 / 10, 1 / 10]\<rparr>)
             (Inr \<lparr>as_credibilityScore = Fin 50, as_truthScore = Fin 50, as_confidence = Fin 50\<rparr>)
             ''Breaking news'' = Inr rep
        \<and> factualScore (verification_details rep) = NaN
        \<and> cm_credibilityScore (combinedMetrics rep) = NaN)
   \<and> ''opinion'' \<notin> set [''factual'', ''misleading'', ''false'']
   \<and> (\<exists>rep. checkContent (\<lambda>q. Threw ''Network Error'')
             (Inr \<lparr>labels = [''news article'', ''blog post''], scores = [9 / 10, 1 / 10]\<rparr>)
             (Inr \<lparr>labels = [''factual'', ''misleading'', ''false''],
                   scores = [7 / 10, 2 / 10, 1 / 10]\<rparr>)
             (Inr \<lparr>as_credibilityScore = Fin 50, as_truthScore = Fin 50, as_confidence = Fin 50\<rparr>)
             ''Breaking news'' = Inr rep
        \<and> opinionScore (verification_details rep) = NaN
        \<and> credibilityMetrics rep =
            credibilityMetrics
              (build_report ''Breaking news''
                 \<lparr>labels = [''news article'', ''blog post''], scores = [9 / 10, 1 / 10]\<rparr>
                 \<lparr>labels = [''factual'', ''misleading'', ''false'', ''opinion''],
                   scores = [7 / 10, 2 / 10, 1 / 10, 1 / 2]\<rparr>
                 \<lparr>as_credibilityScore = Fin 50, as_truthScore = Fin 50, as_confidence = Fin 50\<rparr>
                 (verifyWithNewsAPI (\<lambda>q. Threw ''Network Error'') ''Breaking news'')))"
proof -
  define api :: "string \<Rightarrow> api_outcome" where "api = (\<lambda>q. Threw ''Network Error'')"
  define c where "c = \<lparr>labels = [''news article'', ''blog post''], scores = [9 / 10, 1 / 10 :: real]\<rparr>"
  define m where "m = \<lparr>as_credibilityScore = Fin 50, as_truthScore = Fin 50, as_confidence = Fin 50\<rparr>"
  define v1 where "v1 = \<lparr>labels = [''misleading'', ''false'', ''opinion'', ''unverified''],
                          scores = [4 / 10, 3 / 10, 2 / 10, 1 / 10 :: real]\<rparr>"
  define v2 where "v2 = \<lparr>labels = [''factual'', ''misleading'', ''false''],
                          scores = [7 / 10, 2 / 10, 1 / 10 :: real]\<rparr>"
  define v3 where "v3 = \<lparr>labels = [''factual'', ''misleading'', ''false'', ''opinion''],
                          scores = [7 / 10, 2 / 10, 1 / 10, 1 / 2 :: real]\<rparr>"
  have ne: "''Breaking news'' \<noteq> []" by simp
  have absent1: "''factual'' \<notin> set [''misleading'', ''false'', ''opinion'', ''unverified'']" by simp
  have absent2: "''opinion'' \<notin> set [''factual'', ''misleading'', ''false'']" by simp
  have a1: "''factual'' \<notin> set (labels v1)" by (simp add: v1_def)
  have a2: "''opinion'' \<notin> set (labels v2)" by (simp add: v2_def)
  have len: "length (labels v2) = length (scores v2)" by (simp add: v2_def)
  have ext: "\<lparr>labels = labels v2 @ [''opinion''], scores = scores v2 @ [1 / 2]\<rparr> = v3"
    by (simp add: v2_def v3_def)
  from missing_label_yields_NaN [OF ne, of api c v1 m] a1
  obtain rep1 where r1:
    "checkContent api (Inr c) (Inr v1) (Inr m) ''Breaking news'' = Inr rep1"
    "factualScore (verification_details rep1) = NaN"
    "cm_credibilityScore (combinedMetrics rep1) = NaN"
    by blast
  from missing_label_yields_NaN [OF ne, of api c v2 m] a2 len
  obtain rep2 where r2:
    "checkContent api (Inr c) (Inr v2) (Inr m) ''Breaking news'' = Inr rep2"
    "opinionScore (verification_details rep2) = NaN"
    and frame: "rep2 =
       (build_report ''Breaking news'' c
          \<lparr>labels = labels v2 @ [''opinion''], scores = scores v2 @ [1 / 2]\<rparr> m
          (verifyWithNewsAPI api ''Breaking news''))
       \<lparr>verification_labels := labels v2,
        verification_scores := map (\<lambda>score. Math_round (jmul (Fin score) (Fin 100))) (scores v2),
        primaryClassification := first_label (labels v2),
        verification_details :=
          (verification_details
             (build_report ''Breaking news'' c
                \<lparr>labels = labels v2 @ [''opinion''], scores = scores v2 @ [1 / 2]\<rparr> m
                (verifyWithNewsAPI api ''Breaking news'')))
          \<lparr>opinionScore := NaN\<rparr>\<rparr>"
    by blast
  have "credibilityMetrics rep2 =
          credibilityMetrics (build_report ''Breaking news'' c v3 m (verifyWithNewsAPI api ''Breaking news''))"
    by (subst frame) (simp add: ext)
  with ne absent1 absent2 r1 r2 show ?thesis
    unfolding api_def c_def m_def v1_def v2_def v3_def by blast
qed

text \<open>
  C3 as stated fails: without the label \<open>factual\<close> in the factuality answer the
  submission does not fail; the report is produced with \<open>factualScore = NaN\<close>.
\<close>

theorem missing_label_counterexample:
  "\<not> isl (checkContent (\<lambda>q. Threw ''Network Error'')
             (Inr \<lparr>labels = [''news article'', ''blog post''], scores = [9 / 10, 1 / 10]\<rparr>)
             (Inr \<lparr>labels = [''misleading'', ''false'', ''opinion'', ''unverified''],
                   scores = [4 / 10, 3 / 10, 2 / 10, 1 / 10]\<rparr>)
             (Inr \<lparr>as_credibilityScore = Fin 50, as_truthScore = Fin 50, as_confidence = Fin 50\<rparr>)
             ''Breaking news'')
   \<and> factualScore (verification_details (projr
          (checkContent (\<lambda>q. Threw ''Network Error'')
             (Inr \<lparr>labels = [''news article'', ''blog post''], scores = [9 / 10, 1 / 10]\<rparr>)
             (Inr \<lparr>labels = [''misleading'', ''false'', ''opinion'', ''unverified''],
                   scores = [4 / 10, 3 / 10, 2 / 10, 1 / 10]\<rparr>)
             (Inr \<lparr>as_credibilityScore = Fin 50, as_truthScore = Fin 50, as_confidence = Fin 50\<rparr>)
             ''Breaking news''))) = NaN"
  unfolding checkContent_def
  by (simp add: report_details indexOf_def score_at_def)

text \<open>
  C4, as amended.  On the scenario text, source extraction yields exactly one entry, the
  high-confidence \<open>Reuters\<close> of type Major News Agency, and no Official Source entry;
  \<open>hasStatistics\<close> is true; the dates are \<open>01/05/2024\<close>; the quotes are \<open>It was fair,\<close>
  (with the comma that precedes the closing quote), once for each of the two identical
  double-quote patterns.
\<close>

theorem scenario_extraction:
  "extractNewsSource scenario_text =
     [\<lparr>src_name = ''Reuters'', src_type = MajorNewsAgency, src_confidence = High\<rparr>]
   \<and> hasStatistics scenario_text
   \<and> extractDates scenario_text = [''01/05/2024'']
   \<and> extractQuotes scenario_text = [''It was fair,'', ''It was fair,'']"
  by (simp add: scenario_sources scenario_statistics scenario_dates scenario_quotes)

text \<open>
  C4 as stated fails: the text has neither \<open>officials from\<close> nor \<open>spokesperson for\<close>,
  so no Official Source entry is extracted, and the quoted span keeps its comma.
\<close>

theorem scenario_extraction_counterexample:
  "OfficialSource \<notin> src_type ` set (extractNewsSource scenario_text)
   \<and> ''It was fair'' \<notin> set (extractQuotes scenario_text)"
  by (simp add: scenario_sources scenario_quotes)

text \<open>
  C5.  The complexity of a degenerate text is claimed to be 0.  \<open>calculateTextComplexity\<close>
  has no guard: on a single space (no words, no sentences) it divides \<open>0 / 0\<close> and returns
  \<open>NaN\<close>; on \<open>...\<close> (one word, no sentence) it divides \<open>1 / 0\<close> and returns \<open>0.4125\<close>.
\<close>

theorem complexity_degenerate:
  "calculateTextComplexity '' '' = NaN \<and> calculateTextComplexity ''...'' = Fin (33 / 80)"
  by code_simp

text \<open>
  C6.  The similarity of a non-empty string with itself is claimed to be 1.  The
  intersection keeps the repetitions of the first word list while the union is a set: on
  \<open>a a\<close> against itself \<open>calculateSimilarity\<close> returns \<open>2 / 1 = 2\<close>.
\<close>

theorem similarity_repeated_word:
  "calculateSimilarity (Some ''a a'') (Some ''a a'') = Fin 2"
  by code_simp

text \<open>
  C7, as amended.  Whenever the news search fails (the request throws, an error is
  thrown while the answer is processed, the answer has a status other than \<open>ok\<close>, or it
  has no articles),
  \<open>verifyWithNewsAPI\<close> returns \<open>isVerified = false\<close>, \<open>confidence = 0\<close> and
  \<open>matchedArticles = []\<close>, and a non-empty submission whose classifier and assessor calls
  succeed still gets its report.
\<close>

theorem news_verifier_degrades:
  assumes "(\<exists>msg. api (query_keywords content) = Threw msg)
         \<or> (\<exists>e. verify_try api content = Inl e)
         \<or> (\<exists>status. api (query_keywords content) = Responded status [])
         \<or> (\<exists>status articles. api (query_keywords content) = Responded status articles
                \<and> status \<noteq> ''ok'')"
  shows "isVerified (verifyWithNewsAPI api content) = False
       \<and> nv_confidence (verifyWithNewsAPI api content) = Fin 0
       \<and> matchedArticles (verifyWithNewsAPI api content) = []
       \<and> (content \<noteq> [] \<longrightarrow>
            (\<exists>rep. checkContent api (Inr c) (Inr v) (Inr m) content = Inr rep
               \<and> newsVerification rep =
                   \<lparr>nvr_isVerified = False, nvr_confidence = Fin 0, nvr_matchedArticles = [],
                    nvr_verdict = ''POTENTIALLY FAKE''\<rparr>
               \<and> cm_newsReliability (combinedMetrics rep) = Fin 0))"
proof -
  from assms consider
      (thrown) e where "verify_try api content = Inl e"
    | (empty) "verify_try api content = Inr degraded"
    by (auto dest: verify_threw verify_no_results verify_not_ok)
  then have shape: "isVerified (verifyWithNewsAPI api content) = False
       \<and> nv_confidence (verifyWithNewsAPI api content) = Fin 0
       \<and> matchedArticles (verifyWithNewsAPI api content) = []"
  proof cases
    case thrown
    then show ?thesis by (simp add: verify_caught)
  next
    case empty
    then show ?thesis by (simp add: verify_degraded)
  qed
  have "content \<noteq> [] \<longrightarrow>
            (\<exists>rep. checkContent api (Inr c) (Inr v) (Inr m) content = Inr rep
               \<and> newsVerification rep =
                   \<lparr>nvr_isVerified = False, nvr_confidence = Fin 0, nvr_matchedArticles = [],
                    nvr_verdict = ''POTENTIALLY FAKE''\<rparr>
               \<and> cm_newsReliability (combinedMetrics rep) = Fin 0)"
    using shape by (simp add: checkContent_success report_combined)
  with shape show ?thesis by blast
qed

theorem news_verifier_degrades_witness:
  "query_keywords ''So it is'' = []
   \<and> (\<lambda>q. if q = [] then Threw ''Request failed with status code 400'' else Responded ''ok'' [])
        (query_keywords ''So it is'') = Threw ''Request failed with status code 400''
   \<and> isVerified (verifyWithNewsAPI
         (\<lambda>q. if q = [] then Threw ''Request failed with status code 400'' else Responded ''ok'' [])
         ''So it is'') = False
   \<and> nv_confidence (verifyWithNewsAPI
         (\<lambda>q. if q = [] then Threw ''Request failed with status code 400'' else Responded ''ok'' [])
         ''So it is'') = Fin 0"
proof -
  have q: "query_keywords ''So it is'' = []"
    by code_simp
  let ?api = "\<lambda>q :: string. if q = [] then Threw ''Request failed with status code 400'' else Responded ''ok'' []"
  have t: "?api (query_keywords ''So it is'') = Threw ''Request failed with status code 400''"
    by (simp add: q)
  then have "\<exists>msg. ?api (query_keywords ''So it is'') = Threw msg" by blast
  then have "(\<exists>msg. ?api (query_keywords ''So it is'') = Threw msg)
         \<or> (\<exists>e. verify_try ?api ''So it is'' = Inl e)
         \<or> (\<exists>status. ?api (query_keywords ''So it is'') = Responded status [])
         \<or> (\<exists>status articles. ?api (query_keywords ''So it is'') = Responded status articles
                \<and> status \<noteq> ''ok'')" by blast
  from news_verifier_degrades [OF this] q t show ?thesis by blast
qed

text \<open>
  C7 as stated fails: an empty keyword set is not a failure of \<open>verifyWithNewsAPI\<close>.
  The keywords are not tested; the empty query is sent, and the result is whatever the
  answer gives.  \<open>So it is\<close> has no word longer than four characters; when the service
  answers one article titled \<open>so it is\<close>, the result is verified with confidence 100.
\<close>

theorem empty_keywords_counterexample:
  "query_keywords ''So it is'' = []
   \<and> isVerified (verifyWithNewsAPI
         (\<lambda>q. Responded ''ok''
                 [\<lparr>a_title = Some ''so it is'', a_description = None,
                   a_source = Source (Some ''Newswire''), a_url = None, a_publishedAt = None\<rparr>])
         ''So it is'') = True
   \<and> nv_confidence (verifyWithNewsAPI
         (\<lambda>q. Responded ''ok''
                 [\<lparr>a_title = Some ''so it is'', a_description = None,
                   a_source = Source (Some ''Newswire''), a_url = None, a_publishedAt = None\<rparr>])
         ''So it is'') = Fin 100"
  by code_simp

text \<open>
  C8.  There are non-empty strings whose similarity is greater than 1, and an article
  list for which the confidence of the news verifier is greater than 100.
\<close>

theorem similarity_exceeds_one:
  "(\<exists>a b. a \<noteq> [] \<and> b \<noteq> [] \<and> jgt (calculateSimilarity (Some a) (Some b)) (Fin 1))
   \<and> (\<exists>api content. jgt (nv_confidence (verifyWithNewsAPI api content)) (Fin 100))"
proof
  have "calculateSimilarity (Some ''breaking breaking breaking'') (Some ''breaking'') = Fin 3"
    by code_simp
  then have "''breaking breaking breaking'' \<noteq> [] \<and> ''breaking'' \<noteq> []
      \<and> jgt (calculateSimilarity (Some ''breaking breaking breaking'') (Some ''breaking'')) (Fin 1)"
    by (simp add: jgt_def)
  then show "\<exists>a b. a \<noteq> [] \<and> b \<noteq> [] \<and> jgt (calculateSimilarity (Some a) (Some b)) (Fin 1)"
    by blast
next
  have "nv_confidence (verifyWithNewsAPI
          (\<lambda>q. Responded ''ok''
                  [\<lparr>a_title = Some ''breaking'', a_description = None,
                    a_source = Source (Some ''Newswire''), a_url = None, a_publishedAt = None\<rparr>])
          ''breaking breaking breaking'') = Fin 300"
    by code_simp
  then have "jgt (nv_confidence (verifyWithNewsAPI
          (\<lambda>q. Responded ''ok''
                  [\<lparr>a_title = Some ''breaking'', a_description = None,
                    a_source = Source (Some ''Newswire''), a_url = None, a_publishedAt = None\<rparr>])
          ''breaking breaking breaking'')) (Fin 100)"
    by (simp add: jgt_def)
  then show "\<exists>api content. jgt (nv_confidence (verifyWithNewsAPI api content)) (Fin 100)"
    by blast
qed

text \<open>
  C9.  \<open>getReliabilityLevel\<close> is total: for every number, the special values included,
  it returns one of the five labels, and every input strictly below 20 (as well as
  \<open>NaN\<close>) yields \<open>unreliable\<close>.  The fusion arithmetic reaches \<open>-150\<close>, the least
  unshifted credibility for scores in \<open>[0,1]\<close>, and that value is labelled \<open>unreliable\<close>.
\<close>

theorem getReliabilityLevel_total:
  "getReliabilityLevel x \<in> {''highly reliable'', ''reliable'', ''moderately reliable'',
                              ''somewhat unreliable'', ''unreliable''}
   \<and> (jlt x (Fin 20) \<longrightarrow> getReliabilityLevel x = ''unreliable'')
   \<and> (x = NaN \<longrightarrow> getReliabilityLevel x = ''unreliable'')
   \<and> local_credibility \<lparr>labels = [''factual'', ''misleading'', ''false''], scores = [0, 1, 1]\<rparr>
       = Fin (- 150)
   \<and> getReliabilityLevel (Fin (- 150)) = ''unreliable''"
proof -
  have total: "getReliabilityLevel x \<in> {''highly reliable'', ''reliable'', ''moderately reliable'',
                              ''somewhat unreliable'', ''unreliable''}"
    by (simp add: getReliabilityLevel_def)
  have low: "jlt x (Fin 20) \<longrightarrow> getReliabilityLevel x = ''unreliable''"
    by (cases x) (simp_all add: getReliabilityLevel_def jge_def)
  have nan: "x = NaN \<longrightarrow> getReliabilityLevel x = ''unreliable''"
    by (simp add: getReliabilityLevel_def jge_def)
  have least: "local_credibility \<lparr>labels = [''factual'', ''misleading'', ''false''], scores = [0, 1, 1]\<rparr>
       = Fin (- 150)"
    by (simp add: local_credibility_def indexOf_def score_at_def jsub_def)
  have "getReliabilityLevel (Fin (- 150)) = ''unreliable''"
    by (simp add: getReliabilityLevel_def jge_def)
  with total low nan least show ?thesis by blast
qed

theorem getReliabilityLevel_total_witness:
  "jlt (Fin (- 150)) (Fin 20) \<and> getReliabilityLevel (Fin (- 150)) = ''unreliable''"
  using getReliabilityLevel_total [of "Fin (- 150)"] by simp

text \<open>
  C10.  When the request of the news verifier throws, the degraded result carries the
  message in its \<open>error\<close> field; when the answer has no articles, the degraded result has
  no \<open>error\<close> field.
\<close>

theorem verifier_error_field:
  "(api (query_keywords content) = Threw msg \<longrightarrow>
      verifyWithNewsAPI api content =
        \<lparr>isVerified = False, nv_confidence = Fin 0, matchedArticles = [], nv_error = Some msg\<rparr>)
   \<and> (api (query_keywords content) = Responded status [] \<longrightarrow>
      verifyWithNewsAPI api content =
        \<lparr>isVerified = False, nv_confidence = Fin 0, matchedArticles = [], nv_error = None\<rparr>)"
  by (auto dest!: verify_threw verify_no_results simp: verify_caught verify_degraded)

theorem verifier_error_field_witness:
  "(\<lambda>q. Threw ''Network Error'') (query_keywords ''Breaking news'') = Threw ''Network Error''
   \<and> nv_error (verifyWithNewsAPI (\<lambda>q. Threw ''Network Error'') ''Breaking news'') = Some ''Network Error''
   \<and> (\<lambda>q. Responded ''ok'' []) (query_keywords ''Breaking news'') = Responded ''ok'' []
   \<and> nv_error (verifyWithNewsAPI (\<lambda>q. Responded ''ok'' []) ''Breaking news'') = None"
  using verifier_error_field [of "\<lambda>q. Threw ''Network Error''" "''Breaking news''" "''Network Error''"]
        verifier_error_field [of "\<lambda>q. Responded ''ok'' []" "''Breaking news''" _ "''ok''"]
  by simp

end
